theory Spec2Isabelle
  imports Complex_Main "HOL-Library.AList"
begin

section \<open>Carousel optimizer: quality metrics, similarity, cache and ranking\<close>

text \<open>
  The Python modules \<^verbatim>\<open>quality_metrics.py\<close>, \<^verbatim>\<open>similarity.py\<close>,
  \<^verbatim>\<open>embeddings.py\<close> and \<^verbatim>\<open>recommendation_engine.py\<close> are embedded as
  HOL functions. Python floats are read as real numbers (rounding and NaN are not
  modelled), Python ints as \<open>int\<close>, exceptions as the left summand of a sum type.
\<close>

datatype error = ValueError | IndexError | KeyError | RuntimeError | ZeroDivisionError | OSError

subsection \<open>quality\_metrics.py: QualityMetrics\<close>

text \<open>
  The suggestion texts of the source are fixed literals (with emoji) and a few f-strings.
  Each literal is one constructor; an f-string carries the interpolated values.
\<close>

datatype suggestion =
    CriticalImageTooSmall int int
  | LowResolutionPixelation
  | ActionRetakeHigherQuality
  | UrgentImageBlurry
  | FixUseTripod
  | SlightBlurDetected
  | TipFocusLock
  | ExceptionalSharpness
  | SharpAndClear
  | CriticalImageTooDark
  | SolutionAddLighting
  | SlightlyDark
  | WarningOverexposed
  | FixReduceExposure
  | SlightlyBright
  | PerfectLighting
  | LowContrastFlat
  | FixContrastingBackground
  | ModerateContrastCouldImprove
  | ExcellentContrast
  | ResolutionLow int int
  | ImpactLimitsZoom
  | GoodResolution int int
  | PremiumResolution int int
  | MegapixelImage real
  | UnusualAspectRatio real
  | RecommendSquareRatio
  | ExceptionalQuality
  | MaximizesConversion
  | ProfessionalQuality
  | GoodQuality
  | AcceptableQuality
  | BelowStandard
  | LowQualityBounceRate
  | MeetsAllStandards
  | ReadyForImmediateUse
  | ProfessionalGradeQuality

record QualityMetrics =
  blur_score :: real
  brightness :: real
  contrast :: real
  resolution :: "int \<times> int"
  composite_score :: real
  flags :: "string list"
  suggestions :: "suggestion list"

text \<open>\<^verbatim>\<open>_calculate_composite_score\<close>: reads the four raw fields of \<open>self\<close>.\<close>

definition calculate_composite_score :: "real \<Rightarrow> real \<Rightarrow> real \<Rightarrow> int \<times> int \<Rightarrow> real" where
  "calculate_composite_score blur bright con res =
     (let blur_norm = min (blur / 1000) 1;
          brightness_norm = 1 - \<bar>bright - 128\<bar> / 128;
          contrast_norm = min (con / 64) 1;
          resolution_norm = min (real_of_int (fst res * snd res) / (1920 * 1080)) 1;
          composite = blur_norm * 0.4 + brightness_norm * 0.25
                      + contrast_norm * 0.25 + resolution_norm * 0.1
      in min (max (composite * 100) 0) 100)"

text \<open>The formula as the specification words it, before scaling and clamping.\<close>

definition spec_composite :: "real \<Rightarrow> real \<Rightarrow> real \<Rightarrow> int \<Rightarrow> int \<Rightarrow> real" where
  "spec_composite sharpness bright con width height =
     0.4 * min (sharpness / 1000) 1 + 0.25 * (1 - \<bar>bright - 128\<bar> / 128)
     + 0.25 * min (con / 64) 1
     + 0.1 * min (real_of_int (width * height) / real_of_int (1920 * 1080)) 1"

text \<open>\<^verbatim>\<open>_generate_flags\<close>: the flags are appended in this order.\<close>

definition generate_flags :: "real \<Rightarrow> real \<Rightarrow> real \<Rightarrow> int \<times> int \<Rightarrow> string list" where
  "generate_flags blur bright con res =
     (let f1 = (if blur < 100 then [''blurry'']
                else if blur < 300 then [''slightly_blurry''] else []);
          f2 = f1 @ (if bright < 50 then [''too_dark'']
                     else if bright < 80 then [''dark'']
                     else if bright > 200 then [''too_bright'']
                     else if bright > 170 then [''bright''] else []);
          f3 = f2 @ (if con < 20 then [''low_contrast'']
                     else if con < 35 then [''moderate_contrast''] else []);
          width = fst res;
          height = snd res;
          pixels = width * height;
          f4 = f3 @ (if width < 800 \<or> height < 600 then [''inadequate_resolution'']
                     else if width < 1200 \<or> height < 800 then [''low_resolution'']
                     else if width < 1920 \<or> height < 1080 then [''moderate_resolution'']
                     else []);
          f5 = f4 @ (if pixels < 480000 then [''very_low_pixel_count'']
                     else if pixels < 960000 then [''low_pixel_count''] else []);
          aspect_ratio = (if height > 0 then real_of_int width / real_of_int height else 1);
          f6 = f5 @ (if aspect_ratio < 0.7 \<or> aspect_ratio > 1.5
                     then [''unusual_aspect_ratio''] else [])
      in f6)"

text \<open>
  \<^verbatim>\<open>_generate_suggestions\<close>, one definition per commented section of the source.
  Each reads \<open>self.flags\<close> (here \<open>fl\<close>) and the raw fields.
\<close>

definition critical_issues :: "string list \<Rightarrow> int \<Rightarrow> int \<Rightarrow> suggestion list" where
  "critical_issues fl width height =
     (if ''inadequate_resolution'' \<in> set fl \<or> ''very_low_pixel_count'' \<in> set fl
      then [CriticalImageTooSmall width height, LowResolutionPixelation,
            ActionRetakeHigherQuality]
      else [])"

definition sharpness_analysis :: "string list \<Rightarrow> real \<Rightarrow> suggestion list" where
  "sharpness_analysis fl blur =
     (if ''blurry'' \<in> set fl then [UrgentImageBlurry, FixUseTripod]
      else if ''slightly_blurry'' \<in> set fl then [SlightBlurDetected, TipFocusLock]
      else if blur > 800 then [ExceptionalSharpness]
      else if blur > 500 then [SharpAndClear]
      else [])"

definition lighting_analysis :: "string list \<Rightarrow> real \<Rightarrow> suggestion list" where
  "lighting_analysis fl bright =
     (if ''too_dark'' \<in> set fl then [CriticalImageTooDark, SolutionAddLighting]
      else if ''dark'' \<in> set fl then [SlightlyDark]
      else if ''too_bright'' \<in> set fl then [WarningOverexposed, FixReduceExposure]
      else if ''bright'' \<in> set fl then [SlightlyBright]
      else if 100 \<le> bright \<and> bright \<le> 150 then [PerfectLighting]
      else [])"

definition contrast_analysis :: "string list \<Rightarrow> real \<Rightarrow> suggestion list" where
  "contrast_analysis fl con =
     (if ''low_contrast'' \<in> set fl then [LowContrastFlat, FixContrastingBackground]
      else if ''moderate_contrast'' \<in> set fl then [ModerateContrastCouldImprove]
      else if con > 50 then [ExcellentContrast]
      else [])"

definition resolution_quality :: "string list \<Rightarrow> int \<Rightarrow> int \<Rightarrow> suggestion list" where
  "resolution_quality fl width height =
     (if ''low_resolution'' \<in> set fl \<and> ''inadequate_resolution'' \<notin> set fl
      then [ResolutionLow width height, ImpactLimitsZoom]
      else if ''moderate_resolution'' \<in> set fl then [GoodResolution width height]
      else if width \<ge> 1920 \<and> height \<ge> 1080 then [PremiumResolution width height]
      else [])"

definition pixel_density :: "string list \<Rightarrow> int \<Rightarrow> suggestion list" where
  "pixel_density fl pixels =
     (if ''low_pixel_count'' \<in> set fl
      then (let megapixels = real_of_int pixels / 1000000 in [MegapixelImage megapixels])
      else [])"

text \<open>The only step that can raise: \<^verbatim>\<open>width / height\<close> with \<open>height = 0\<close>.\<close>

definition aspect_ratio_section :: "string list \<Rightarrow> int \<Rightarrow> int \<Rightarrow> error + suggestion list" where
  "aspect_ratio_section fl width height =
     (if ''unusual_aspect_ratio'' \<in> set fl
      then (if height = 0 then Inl ZeroDivisionError
            else (let aspect_ratio = real_of_int width / real_of_int height
                  in Inr [UnusualAspectRatio aspect_ratio, RecommendSquareRatio]))
      else Inr [])"

definition overall_assessment :: "real \<Rightarrow> suggestion list" where
  "overall_assessment cscore =
     (if cscore \<ge> 90 then [ExceptionalQuality, MaximizesConversion]
      else if cscore \<ge> 80 then [ProfessionalQuality]
      else if cscore \<ge> 70 then [GoodQuality]
      else if cscore \<ge> 60 then [AcceptableQuality]
      else [BelowStandard, LowQualityBounceRate])"

definition generic_acknowledgment :: "suggestion list" where
  "generic_acknowledgment = [MeetsAllStandards, ReadyForImmediateUse, ProfessionalGradeQuality]"

text \<open>The list built by all sections before the last one.\<close>

definition specific_suggestions ::
  "real \<Rightarrow> real \<Rightarrow> real \<Rightarrow> int \<times> int \<Rightarrow> real \<Rightarrow> string list \<Rightarrow> error + suggestion list" where
  "specific_suggestions blur bright con res cscore fl =
     (let width = fst res;
          height = snd res;
          pixels = width * height;
          s1 = critical_issues fl width height;
          s2 = s1 @ sharpness_analysis fl blur;
          s3 = s2 @ lighting_analysis fl bright;
          s4 = s3 @ contrast_analysis fl con;
          s5 = s4 @ resolution_quality fl width height;
          s6 = s5 @ pixel_density fl pixels
      in case aspect_ratio_section fl width height of
           Inl e \<Rightarrow> Inl e
         | Inr asp \<Rightarrow> Inr (s6 @ asp @ overall_assessment cscore))"

text \<open>
  The last section (\<^verbatim>\<open>if len(suggestions) < 3 and not self.flags\<close>) and the
  final slice \<^verbatim>\<open>suggestions[:8]\<close>.
\<close>

definition generate_suggestions ::
  "real \<Rightarrow> real \<Rightarrow> real \<Rightarrow> int \<times> int \<Rightarrow> real \<Rightarrow> string list \<Rightarrow> error + suggestion list" where
  "generate_suggestions blur bright con res cscore fl =
     (case specific_suggestions blur bright con res cscore fl of
        Inl e \<Rightarrow> Inl e
      | Inr s8 \<Rightarrow>
          (let s9 = (if length s8 < 3 \<and> fl = [] then s8 @ generic_acknowledgment else s8)
           in Inr (take 8 s9)))"

text \<open>\<^verbatim>\<open>QualityMetrics.__init__\<close>: the derived fields are computed in this order.\<close>

definition QualityMetrics_init :: "real \<Rightarrow> real \<Rightarrow> real \<Rightarrow> int \<times> int \<Rightarrow> error + QualityMetrics" where
  "QualityMetrics_init blur bright con res =
     (let cscore = calculate_composite_score blur bright con res;
          fl = generate_flags blur bright con res
      in case generate_suggestions blur bright con res cscore fl of
           Inl e \<Rightarrow> Inl e
         | Inr sg \<Rightarrow> Inr \<lparr>blur_score = blur, brightness = bright, contrast = con,
                          resolution = res, composite_score = cscore, flags = fl,
                          suggestions = sg\<rparr>)"

text \<open>The grade computed in \<^verbatim>\<open>to_dict\<close>.\<close>

definition quality_grade :: "real \<Rightarrow> string" where
  "quality_grade cscore =
     (if cscore \<ge> 90 then ''EXCEPTIONAL''
      else if cscore \<ge> 80 then ''PROFESSIONAL''
      else if cscore \<ge> 70 then ''GOOD''
      else if cscore \<ge> 60 then ''ACCEPTABLE''
      else ''POOR'')"

subsection \<open>quality\_metrics.py: QualityAnalyzer\<close>

text \<open>
  OpenCV, PIL and numpy are outside the repository. What the analyzer asks of them is a
  parameter: whether \<^verbatim>\<open>cv2\<close> was imported, the size PIL reads from a file,
  the array \<^verbatim>\<open>cv2.imread\<close> returns (\<open>None\<close> when it cannot decode), its
  shape as (height, width), and the three statistics, where \<open>None\<close> stands for an
  exception inside the library call.
\<close>

record 'img vision =
  HAS_CV2 :: bool
  pil_size :: "string \<Rightarrow> (int \<times> int) option"
  cv2_imread :: "string \<Rightarrow> 'img option"
  shape :: "'img \<Rightarrow> int \<times> int"
  laplacian_var :: "'img \<Rightarrow> real option"
  gray_mean :: "'img \<Rightarrow> real option"
  gray_std :: "'img \<Rightarrow> real option"

definition detect_blur :: "'img vision \<Rightarrow> 'img \<Rightarrow> real" where
  "detect_blur env image_array =
     (if \<not> HAS_CV2 env then 150
      else case laplacian_var env image_array of Some v \<Rightarrow> v | None \<Rightarrow> 0)"

definition calculate_brightness :: "'img vision \<Rightarrow> 'img \<Rightarrow> real" where
  "calculate_brightness env image_array =
     (if \<not> HAS_CV2 env then 128
      else case gray_mean env image_array of Some v \<Rightarrow> v | None \<Rightarrow> 0)"

definition calculate_contrast :: "'img vision \<Rightarrow> 'img \<Rightarrow> real" where
  "calculate_contrast env image_array =
     (if \<not> HAS_CV2 env then 45
      else case gray_std env image_array of Some v \<Rightarrow> v | None \<Rightarrow> 0)"

text \<open>The body of the \<^verbatim>\<open>try\<close> block of \<^verbatim>\<open>analyze_image_quality\<close>.\<close>

definition analyze_attempt :: "'img vision \<Rightarrow> string \<Rightarrow> error + QualityMetrics" where
  "analyze_attempt env image_path =
     (if \<not> HAS_CV2 env then
        (case pil_size env image_path of
           None \<Rightarrow> Inl OSError
         | Some res \<Rightarrow> QualityMetrics_init 150 128 45 res)
      else
        (case cv2_imread env image_path of
           None \<Rightarrow> Inl ValueError
         | Some image_array \<Rightarrow>
             (let height = fst (shape env image_array);
                  width = snd (shape env image_array);
                  res = (width, height);
                  blur = detect_blur env image_array;
                  bright = calculate_brightness env image_array;
                  con = calculate_contrast env image_array
              in QualityMetrics_init blur bright con res)))"

text \<open>\<^verbatim>\<open>except Exception\<close>: any failure is replaced by the default metrics.\<close>

definition analyze_image_quality :: "'img vision \<Rightarrow> string \<Rightarrow> error + QualityMetrics" where
  "analyze_image_quality env image_path =
     (case analyze_attempt env image_path of
        Inr metrics \<Rightarrow> Inr metrics
      | Inl e \<Rightarrow> QualityMetrics_init 0 0 0 (0, 0))"

text \<open>An image that cannot be decoded, on either path.\<close>

definition undecodable :: "'img vision \<Rightarrow> string \<Rightarrow> bool" where
  "undecodable env image_path =
     (if HAS_CV2 env then cv2_imread env image_path = None
      else pil_size env image_path = None)"

subsection \<open>similarity.py: SimilarityResult\<close>

text \<open>
  The similarity matrix is a two-dimensional numpy array, here a list of rows. Reading
  an entry outside its shape raises IndexError.
\<close>

type_synonym matrix = "real list list"

definition matrix_entry :: "matrix \<Rightarrow> nat \<Rightarrow> nat \<Rightarrow> error + real" where
  "matrix_entry m i j =
     (if i < length m \<and> j < length (m ! i) then Inr (m ! i ! j) else Inl IndexError)"

text \<open>One entry of the list \<^verbatim>\<open>duplicates\<close>: the dict with these three keys.\<close>

record duplicate =
  image_a :: string
  image_b :: string
  similarity :: real

record SimilarityResult =
  similarity_matrix :: matrix
  image_ids :: "string list"
  duplicates :: "duplicate list"

text \<open>
  \<^verbatim>\<open>_find_duplicates\<close>: the inner loop over \<open>j\<close> and the outer loop over \<open>i\<close>, with
  the list \<^verbatim>\<open>duplicates\<close> as accumulator.
\<close>

fun find_duplicates_row ::
  "matrix \<Rightarrow> string list \<Rightarrow> real \<Rightarrow> nat \<Rightarrow> nat list \<Rightarrow> duplicate list \<Rightarrow> error + duplicate list" where
  "find_duplicates_row m ids threshold i [] acc = Inr acc"
| "find_duplicates_row m ids threshold i (j # js) acc =
     (case matrix_entry m i j of
        Inl e \<Rightarrow> Inl e
      | Inr sim \<Rightarrow>
          find_duplicates_row m ids threshold i js
            (if sim > threshold
             then acc @ [\<lparr>image_a = ids ! i, image_b = ids ! j, similarity = sim\<rparr>]
             else acc))"

fun find_duplicates_rows ::
  "matrix \<Rightarrow> string list \<Rightarrow> real \<Rightarrow> nat \<Rightarrow> nat list \<Rightarrow> duplicate list \<Rightarrow> error + duplicate list" where
  "find_duplicates_rows m ids threshold n [] acc = Inr acc"
| "find_duplicates_rows m ids threshold n (i # is) acc =
     (case find_duplicates_row m ids threshold i [i + 1 ..< n] acc of
        Inl e \<Rightarrow> Inl e
      | Inr acc' \<Rightarrow> find_duplicates_rows m ids threshold n is acc')"

definition find_duplicates :: "matrix \<Rightarrow> string list \<Rightarrow> real \<Rightarrow> error + duplicate list" where
  "find_duplicates m ids threshold =
     (let n_images = length ids
      in find_duplicates_rows m ids threshold n_images [0 ..< n_images] [])"

text \<open>\<^verbatim>\<open>SimilarityResult.__init__\<close> calls \<^verbatim>\<open>_find_duplicates()\<close> at the default 0.92.\<close>

definition SimilarityResult_init :: "matrix \<Rightarrow> string list \<Rightarrow> error + SimilarityResult" where
  "SimilarityResult_init m ids =
     (case find_duplicates m ids 0.92 of
        Inl e \<Rightarrow> Inl e
      | Inr d \<Rightarrow> Inr \<lparr>similarity_matrix = m, image_ids = ids, duplicates = d\<rparr>)"

text \<open>\<^verbatim>\<open>list.index\<close>: the first position of the value, \<open>None\<close> for ValueError.\<close>

fun index_of :: "'a list \<Rightarrow> 'a \<Rightarrow> nat option" where
  "index_of [] x = None"
| "index_of (y # ys) x = (if y = x then Some 0 else map_option Suc (index_of ys x))"

text \<open>\<^verbatim>\<open>get_similarity\<close> catches ValueError only; an IndexError leaves the function.\<close>

definition get_similarity :: "SimilarityResult \<Rightarrow> string \<Rightarrow> string \<Rightarrow> error + real" where
  "get_similarity r image_a_id image_b_id =
     (case index_of (image_ids r) image_a_id of
        None \<Rightarrow> Inr 0
      | Some idx_a \<Rightarrow>
          (case index_of (image_ids r) image_b_id of
             None \<Rightarrow> Inr 0
           | Some idx_b \<Rightarrow> matrix_entry (similarity_matrix r) idx_a idx_b))"

definition get_duplicate_ids :: "SimilarityResult \<Rightarrow> string set" where
  "get_duplicate_ids r =
     fold (\<lambda>dup duplicate_ids. insert (image_b dup) (insert (image_a dup) duplicate_ids))
       (duplicates r) {}"

subsection \<open>similarity.py: SimilarityAnalyzer\<close>

definition eye :: "nat \<Rightarrow> matrix" where
  "eye n = map (\<lambda>i. map (\<lambda>j. if i = j then 1 else 0) [0 ..< n]) [0 ..< n]"

text \<open>
  \<^verbatim>\<open>compute_similarity_matrix\<close>. Stacking the embeddings and scikit-learn's
  \<^verbatim>\<open>cosine_similarity\<close> are outside the repository: \<open>cosine\<close> is a parameter, with
  \<open>None\<close> for an exception. The log call that follows takes \<^verbatim>\<open>np.max\<close> of the
  entries below 1.0 and raises when there are none; both failures end in \<^verbatim>\<open>np.eye(n)\<close>.
\<close>

definition compute_similarity_matrix :: "('e list \<Rightarrow> matrix option) \<Rightarrow> 'e list \<Rightarrow> matrix" where
  "compute_similarity_matrix cosine embeddings =
     (if embeddings = [] then []
      else case cosine embeddings of
             None \<Rightarrow> eye (length embeddings)
           | Some sm \<Rightarrow>
               (if filter (\<lambda>x. x < 1) (concat sm) = [] then eye (length embeddings)
                else sm))"

definition analyze_similarity ::
  "('e list \<Rightarrow> matrix option) \<Rightarrow> 'e list \<Rightarrow> string list \<Rightarrow> real \<Rightarrow> error + SimilarityResult" where
  "analyze_similarity cosine embeddings ids duplicate_threshold =
     (if length embeddings \<noteq> length ids then Inl ValueError
      else if embeddings = [] then SimilarityResult_init [] []
      else
        (let sm = compute_similarity_matrix cosine embeddings
         in case SimilarityResult_init sm ids of
              Inl e \<Rightarrow> Inl e
            | Inr result \<Rightarrow>
                (if duplicate_threshold \<noteq> 0.92
                 then (case find_duplicates sm ids duplicate_threshold of
                         Inl e \<Rightarrow> Inl e
                       | Inr d \<Rightarrow> Inr (result\<lparr>duplicates := d\<rparr>))
                 else Inr result)))"

text \<open>The loop of \<^verbatim>\<open>get_diversity_score\<close>, started at \<^verbatim>\<open>max_similarity = 0.0\<close>.\<close>

fun max_similarity_loop :: "SimilarityResult \<Rightarrow> string \<Rightarrow> string list \<Rightarrow> real \<Rightarrow> error + real" where
  "max_similarity_loop r image_id [] max_similarity = Inr max_similarity"
| "max_similarity_loop r image_id (selected_id # rest) max_similarity =
     (case get_similarity r image_id selected_id of
        Inl e \<Rightarrow> Inl e
      | Inr sim \<Rightarrow> max_similarity_loop r image_id rest (max max_similarity sim))"

definition get_diversity_score :: "string \<Rightarrow> string list \<Rightarrow> SimilarityResult \<Rightarrow> real" where
  "get_diversity_score image_id selected_ids r =
     (if selected_ids = [] then 1
      else case max_similarity_loop r image_id selected_ids 0 of
             Inl e \<Rightarrow> 0
           | Inr max_similarity \<Rightarrow> 1 - max_similarity)"

text \<open>A result whose matrix has one row and one column per image id.\<close>

definition square_matrix :: "nat \<Rightarrow> matrix \<Rightarrow> bool" where
  "square_matrix n m = (length m = n \<and> list_all (\<lambda>row. length row = n) m)"

subsection \<open>embeddings.py: EmbeddingCache\<close>

text \<open>
  The dict \<^verbatim>\<open>cache\<close> is an association list in insertion order with one pair per
  key: assigning to a present key keeps its place, a new key goes to the end
  (\<open>AList.update\<close>). Every operation returns what it raised or returned together
  with the cache as it has left it.
\<close>

type_synonym embedding = "real list"

record EmbeddingCache =
  max_size :: int
  cache :: "(string \<times> embedding) list"
  access_order :: "string list"

definition EmbeddingCache_init :: "int \<Rightarrow> EmbeddingCache" where
  "EmbeddingCache_init n = \<lparr>max_size = n, cache = [], access_order = []\<rparr>"

definition get :: "string \<Rightarrow> EmbeddingCache \<Rightarrow> (error + embedding option) \<times> EmbeddingCache" where
  "get key c =
     (case map_of (cache c) key of
        Some emb \<Rightarrow>
          (if key \<in> set (access_order c)
           then (Inr (Some emb), c\<lparr>access_order := remove1 key (access_order c) @ [key]\<rparr>)
           else (Inl ValueError, c))
      | None \<Rightarrow> (Inr None, c))"

definition put :: "string \<Rightarrow> embedding \<Rightarrow> EmbeddingCache \<Rightarrow> (error + unit) \<times> EmbeddingCache" where
  "put key emb c =
     (if map_of (cache c) key \<noteq> None then
        (let c1 = c\<lparr>cache := AList.update key emb (cache c)\<rparr>
         in if key \<in> set (access_order c1)
            then (Inr (), c1\<lparr>access_order := remove1 key (access_order c1) @ [key]\<rparr>)
            else (Inl ValueError, c1))
      else if int (length (cache c)) \<ge> max_size c then
        (case access_order c of
           [] \<Rightarrow> (Inl IndexError, c)
         | lru_key # rest \<Rightarrow>
             (let c1 = c\<lparr>access_order := rest\<rparr>
              in if map_of (cache c1) lru_key = None then (Inl KeyError, c1)
                 else
                   (let c2 = c1\<lparr>cache := AList.delete lru_key (cache c1)\<rparr>;
                        c3 = c2\<lparr>cache := AList.update key emb (cache c2)\<rparr>
                    in (Inr (), c3\<lparr>access_order := access_order c3 @ [key]\<rparr>))))
      else
        (let c1 = c\<lparr>cache := AList.update key emb (cache c)\<rparr>
         in (Inr (), c1\<lparr>access_order := access_order c1 @ [key]\<rparr>)))"

definition clear :: "EmbeddingCache \<Rightarrow> EmbeddingCache" where
  "clear c = c\<lparr>cache := [], access_order := []\<rparr>"

text \<open>A sequence of calls on one cache object; a call that raises leaves the cache as it is then.\<close>

datatype cache_op = Get string | Put string embedding | Clear

fun apply_cache_op :: "cache_op \<Rightarrow> EmbeddingCache \<Rightarrow> EmbeddingCache" where
  "apply_cache_op (Get key) c = snd (get key c)"
| "apply_cache_op (Put key emb) c = snd (put key emb c)"
| "apply_cache_op Clear c = clear c"

definition run_cache_ops :: "cache_op list \<Rightarrow> EmbeddingCache \<Rightarrow> EmbeddingCache" where
  "run_cache_ops ops c = fold apply_cache_op ops c"

text \<open>What every reachable cache satisfies: the list and the dict hold the same keys, once each.\<close>

definition cache_consistent :: "EmbeddingCache \<Rightarrow> bool" where
  "cache_consistent c =
     (distinct (map fst (cache c)) \<and> distinct (access_order c)
      \<and> set (access_order c) = set (map fst (cache c)))"

subsection \<open>embeddings.py: EmbeddingGenerator\<close>

text \<open>
  The generator object: whether \<^verbatim>\<open>self.model\<close> holds a loaded model, and its cache.
  Outside the repository and therefore parameters: whether torch and open\_clip were
  imported, whether loading the model succeeds, the file fingerprint
  (\<^verbatim>\<open>_get_image_hash\<close> reads the file and never raises), the seeded
  \<^verbatim>\<open>np.random.normal\<close> draw, opening and preprocessing an image, and the model's
  normalised batch inference (\<open>None\<close> for an exception).
\<close>

record EmbeddingGenerator =
  model :: "unit option"
  embedding_cache :: EmbeddingCache

record 'img ml_env =
  HAS_ML_DEPS :: bool
  create_model :: "unit option"
  get_image_hash :: "string \<Rightarrow> string"
  random_normal :: "string \<Rightarrow> embedding"
  open_rgb :: "string \<Rightarrow> 'img option"
  encode_image :: "'img list \<Rightarrow> embedding list option"

definition EmbeddingGenerator_init :: EmbeddingGenerator where
  "EmbeddingGenerator_init = \<lparr>model = None, embedding_cache = EmbeddingCache_init 100\<rparr>"

definition initialize :: "'img ml_env \<Rightarrow> EmbeddingGenerator \<Rightarrow> error + EmbeddingGenerator" where
  "initialize env g =
     (if \<not> HAS_ML_DEPS env then Inr g
      else case create_model env of
             None \<Rightarrow> Inl RuntimeError
           | Some mdl \<Rightarrow> Inr (g\<lparr>model := Some mdl\<rparr>))"

definition l2_norm :: "embedding \<Rightarrow> real" where
  "l2_norm v = sqrt (sum_list (map (\<lambda>x. x * x) v))"

definition zeros :: embedding where
  "zeros = replicate 512 0"

definition generate_embedding ::
  "'img ml_env \<Rightarrow> string \<Rightarrow> EmbeddingGenerator \<Rightarrow> (error + embedding) \<times> EmbeddingGenerator" where
  "generate_embedding env image_path g =
     (if \<not> HAS_ML_DEPS env then
        (let image_hash = get_image_hash env image_path;
             mock_embedding = random_normal env image_hash;
             mock_embedding = map (\<lambda>x. x / l2_norm mock_embedding) mock_embedding
         in (Inr mock_embedding, g))
      else if model g = None then (Inl RuntimeError, g)
      else
        (let image_hash = get_image_hash env image_path
         in case get image_hash (embedding_cache g) of
              (Inl e, c) \<Rightarrow> (Inl e, g\<lparr>embedding_cache := c\<rparr>)
            | (Inr (Some cached_embedding), c) \<Rightarrow>
                (Inr cached_embedding, g\<lparr>embedding_cache := c\<rparr>)
            | (Inr None, c) \<Rightarrow>
                (case open_rgb env image_path of
                   None \<Rightarrow> (Inr zeros, g\<lparr>embedding_cache := c\<rparr>)
                 | Some img \<Rightarrow>
                     (case encode_image env [img] of
                        None \<Rightarrow> (Inr zeros, g\<lparr>embedding_cache := c\<rparr>)
                      | Some rows \<Rightarrow>
                          (let embedding_np = concat rows
                           in case put image_hash embedding_np c of
                                (Inl e, c') \<Rightarrow> (Inr zeros, g\<lparr>embedding_cache := c'\<rparr>)
                              | (Inr u, c') \<Rightarrow>
                                  (Inr embedding_np, g\<lparr>embedding_cache := c'\<rparr>))))))"

text \<open>
  \<^verbatim>\<open>generate_embeddings_batch\<close>. First loop: one cache lookup per path, a placeholder
  \<open>None\<close> for every miss.
\<close>

fun batch_lookup ::
  "'img ml_env \<Rightarrow> string list \<Rightarrow> EmbeddingCache \<Rightarrow> embedding option list
     \<Rightarrow> (error + embedding option list) \<times> EmbeddingCache" where
  "batch_lookup env [] c embeddings = (Inr embeddings, c)"
| "batch_lookup env (image_path # rest) c embeddings =
     (case get (get_image_hash env image_path) c of
        (Inl e, c') \<Rightarrow> (Inl e, c')
      | (Inr cached_embedding, c') \<Rightarrow> batch_lookup env rest c' (embeddings @ [cached_embedding]))"

text \<open>
  Third loop: store each returned row at its original index and in the cache. A
  \<^verbatim>\<open>put\<close> that raises ends the loop with the rows stored so far.
\<close>

fun batch_store ::
  "'img ml_env \<Rightarrow> (nat \<times> string) list \<Rightarrow> embedding list \<Rightarrow> embedding option list
     \<Rightarrow> EmbeddingCache \<Rightarrow> (error option \<times> embedding option list) \<times> EmbeddingCache" where
  "batch_store env (slot # slots) (embedding_np # rows) embeddings c =
     (let embeddings' = embeddings[fst slot := Some embedding_np]
      in case put (get_image_hash env (snd slot)) embedding_np c of
           (Inl e, c') \<Rightarrow> ((Some e, embeddings'), c')
         | (Inr u, c') \<Rightarrow> batch_store env slots rows embeddings' c')"
| "batch_store env slots rows embeddings c = ((None, embeddings), c)"

definition fill_zeros :: "embedding option list \<Rightarrow> embedding list" where
  "fill_zeros embeddings = map (\<lambda>e. case e of None \<Rightarrow> zeros | Some v \<Rightarrow> v) embeddings"

definition generate_embeddings_batch ::
  "'img ml_env \<Rightarrow> string list \<Rightarrow> EmbeddingGenerator
     \<Rightarrow> (error + embedding list) \<times> EmbeddingGenerator" where
  "generate_embeddings_batch env image_paths g =
     (if model g = None then (Inl RuntimeError, g)
      else case batch_lookup env image_paths (embedding_cache g) [] of
             (Inl e, c) \<Rightarrow> (Inl e, g\<lparr>embedding_cache := c\<rparr>)
           | (Inr embeddings, c) \<Rightarrow>
               (let uncached = filter (\<lambda>(i, image_path). embeddings ! i = None)
                                 (zip [0 ..< length image_paths] image_paths);
                    loaded = List.map_filter
                               (\<lambda>(i, image_path). map_option (\<lambda>img. ((i, image_path), img))
                                                     (open_rgb env image_path)) uncached
                in if uncached = [] then (Inr (fill_zeros embeddings), g\<lparr>embedding_cache := c\<rparr>)
                   else if loaded = [] then (Inr (fill_zeros embeddings), g\<lparr>embedding_cache := c\<rparr>)
                   else case encode_image env (map snd loaded) of
                          None \<Rightarrow> (Inr (fill_zeros embeddings), g\<lparr>embedding_cache := c\<rparr>)
                        | Some rows \<Rightarrow>
                            (case batch_store env (map fst loaded) rows embeddings c of
                               ((raised, embeddings'), c') \<Rightarrow>
                                 (Inr (fill_zeros embeddings'), g\<lparr>embedding_cache := c'\<rparr>))))"

subsection \<open>recommendation\_engine.py\<close>

record ImageData =
  id_str :: string
  filename :: string
  path :: string
  quality_metrics :: QualityMetrics
  embedding_of :: "embedding option"

text \<open>
  A reason is a list of fixed phrases joined by a bullet; the hero's reason has the
  prefix \<^verbatim>\<open>Hero: \<close>. One constructor per phrase of the source.
\<close>

datatype phrase =
    Premium_quality | Strong_quality | Good_quality | Acceptable_quality
  | Unique_angle | Good_variety | Similar_perspective | Very_similar
  | Sharp_details | High_res | Duplicate_detected
  | Premium_quality_top_10 | Excellent_quality | Crystal_clear_focus | Optimal_lighting
  | Vibrant_contrast | Premium_resolution | High_resolution | Unique_perspective
  | Maximizes_conversion_potential

datatype reason_text = Joined "phrase list" | Hero_joined "phrase list" | Hero_best_available

record RecommendationItem =
  position :: int
  image_id :: string
  score :: real
  reason :: reason_text
  is_hero :: bool

record RecommendationResult =
  recommendations :: "RecommendationItem list"
  similarity_result :: SimilarityResult
  hero_image :: "RecommendationItem option"

definition RecommendationResult_init ::
  "RecommendationItem list \<Rightarrow> SimilarityResult \<Rightarrow> RecommendationResult" where
  "RecommendationResult_init recs sr =
     \<lparr>recommendations = recs, similarity_result = sr, hero_image = List.find is_hero recs\<rparr>"

record CarouselRecommendationEngine =
  quality_weight :: real
  diversity_weight :: real
  duplicate_penalty :: real

definition CarouselRecommendationEngine_init :: CarouselRecommendationEngine where
  "CarouselRecommendationEngine_init =
     \<lparr>quality_weight = 0.6, diversity_weight = 0.4, duplicate_penalty = 0.3\<rparr>"

text \<open>The body of the scoring loop of \<^verbatim>\<open>_select_hero_image\<close>.\<close>

definition hero_quality_score :: "ImageData \<Rightarrow> string set \<Rightarrow> real" where
  "hero_quality_score img duplicate_ids =
     (let quality_score = composite_score (quality_metrics img);
          quality_score = (if id_str img \<in> duplicate_ids then quality_score * 0.2
                           else quality_score);
          width = fst (resolution (quality_metrics img));
          height = snd (resolution (quality_metrics img));
          quality_score = (if width \<ge> 1200 \<and> height \<ge> 800 then quality_score * 1.1
                           else quality_score)
      in quality_score)"

text \<open>The hero score as the specification words it.\<close>

definition spec_hero_score :: "ImageData \<Rightarrow> string set \<Rightarrow> real" where
  "spec_hero_score img duplicate_ids =
     composite_score (quality_metrics img)
     * (if id_str img \<in> duplicate_ids then 0.2 else 1)
     * (if fst (resolution (quality_metrics img)) \<ge> 1200
           \<and> snd (resolution (quality_metrics img)) \<ge> 800 then 1.1 else 1)"

text \<open>
  Python's \<^verbatim>\<open>max(xs, key=f)\<close>: the running best is replaced only by a strictly
  greater key; ValueError on the empty list.
\<close>

fun max_loop :: "('a \<Rightarrow> real) \<Rightarrow> 'a \<Rightarrow> 'a list \<Rightarrow> 'a" where
  "max_loop key best [] = best"
| "max_loop key best (x # xs) = max_loop key (if key x > key best then x else best) xs"

definition py_max :: "('a \<Rightarrow> real) \<Rightarrow> 'a list \<Rightarrow> error + 'a" where
  "py_max key xs = (case xs of [] \<Rightarrow> Inl ValueError | x # rest \<Rightarrow> Inr (max_loop key x rest))"

definition select_hero_image :: "ImageData list \<Rightarrow> string set \<Rightarrow> error + ImageData" where
  "select_hero_image images duplicate_ids =
     (let scored_images = map (\<lambda>img. (img, hero_quality_score img duplicate_ids)) images
      in case py_max snd scored_images of
           Inl e \<Rightarrow> Inl e
         | Inr (hero, hero_score) \<Rightarrow> Inr hero)"

text \<open>The body of the loop of \<^verbatim>\<open>_rank_remaining_images\<close>: one scored triple per image.\<close>

definition score_remaining_image ::
  "CarouselRecommendationEngine \<Rightarrow> string list \<Rightarrow> SimilarityResult \<Rightarrow> string set
     \<Rightarrow> ImageData \<Rightarrow> ImageData \<times> real \<times> reason_text" where
  "score_remaining_image engine selected_ids sr duplicate_ids img =
     (let quality_score = composite_score (quality_metrics img) / 100;
          diversity_score = get_diversity_score (id_str img) selected_ids sr;
          combined_score = quality_weight engine * quality_score
                           + diversity_weight engine * diversity_score;
          is_duplicate = (id_str img \<in> duplicate_ids);
          combined_score = (if is_duplicate then combined_score * duplicate_penalty engine
                            else combined_score);
          r1 = [if quality_score \<ge> 0.85 then Premium_quality
                else if quality_score \<ge> 0.70 then Strong_quality
                else if quality_score \<ge> 0.60 then Good_quality
                else Acceptable_quality];
          r2 = r1 @ [if diversity_score > 0.75 then Unique_angle
                     else if diversity_score > 0.5 then Good_variety
                     else if diversity_score > 0.3 then Similar_perspective
                     else Very_similar];
          r3 = r2 @ (if blur_score (quality_metrics img) > 500 then [Sharp_details] else []);
          r4 = r3 @ (if fst (resolution (quality_metrics img)) \<ge> 1920 then [High_res] else []);
          r5 = r4 @ (if is_duplicate then [Duplicate_detected] else [])
      in (img, combined_score * 100, Joined r5))"

text \<open>
  \<^verbatim>\<open>sorted(scored_images, key=lambda x: x[1], reverse=True)\<close>: descending and stable,
  that is, a stable ascending sort on the negated score.
\<close>

definition rank_remaining_images ::
  "CarouselRecommendationEngine \<Rightarrow> ImageData list \<Rightarrow> ImageData list \<Rightarrow> SimilarityResult
     \<Rightarrow> string set \<Rightarrow> (ImageData \<times> real \<times> reason_text) list" where
  "rank_remaining_images engine images selected_images sr duplicate_ids =
     (let selected_ids = map id_str selected_images;
          scored_images = map (score_remaining_image engine selected_ids sr duplicate_ids) images
      in sort_key (\<lambda>x. - fst (snd x)) scored_images)"

definition get_hero_reason :: "ImageData \<Rightarrow> string set \<Rightarrow> reason_text" where
  "get_hero_reason hero duplicate_ids =
     (let quality = composite_score (quality_metrics hero);
          blur = blur_score (quality_metrics hero);
          r1 = [if quality \<ge> 90 then Premium_quality_top_10
                else if quality \<ge> 80 then Excellent_quality
                else if quality \<ge> 70 then Strong_quality
                else if quality \<ge> 60 then Good_quality
                else Acceptable_quality];
          r2 = r1 @ (if blur > 500 then [Crystal_clear_focus] else []);
          r3 = r2 @ (if 110 \<le> brightness (quality_metrics hero)
                        \<and> brightness (quality_metrics hero) \<le> 145
                     then [Optimal_lighting] else []);
          r4 = r3 @ (if contrast (quality_metrics hero) > 50 then [Vibrant_contrast] else []);
          width = fst (resolution (quality_metrics hero));
          height = snd (resolution (quality_metrics hero));
          r5 = r4 @ (if width \<ge> 1920 \<and> height \<ge> 1080 then [Premium_resolution]
                     else if width \<ge> 1200 \<and> height \<ge> 800 then [High_resolution] else []);
          r6 = r5 @ (if id_str hero \<notin> duplicate_ids then [Unique_perspective] else []);
          r7 = r6 @ (if quality \<ge> 85 \<and> blur > 500 then [Maximizes_conversion_potential]
                     else [])
      in if r7 \<noteq> [] then Hero_joined r7 else Hero_best_available)"

text \<open>
  The recommendation items of \<^verbatim>\<open>generate_recommendations\<close>: the hero at position 1,
  then \<^verbatim>\<open>enumerate(ranked_images, start=2)\<close>.
\<close>

definition recommendation_items ::
  "ImageData \<Rightarrow> string set \<Rightarrow> (ImageData \<times> real \<times> reason_text) list \<Rightarrow> RecommendationItem list" where
  "recommendation_items hero duplicate_ids ranked_images =
     \<lparr>position = 1, image_id = id_str hero, score = composite_score (quality_metrics hero),
      reason = get_hero_reason hero duplicate_ids, is_hero = True\<rparr>
     # map (\<lambda>(i, (img, sc, rs)).
              \<lparr>position = int i, image_id = id_str img, score = sc, reason = rs,
               is_hero = False\<rparr>)
         (zip [2 ..< 2 + length ranked_images] ranked_images)"

definition generate_recommendations ::
  "CarouselRecommendationEngine \<Rightarrow> ('e list \<Rightarrow> matrix option) \<Rightarrow> ImageData list \<Rightarrow> 'e list
     \<Rightarrow> real \<Rightarrow> error + RecommendationResult" where
  "generate_recommendations engine cosine images embeddings duplicate_threshold =
     (if images = [] then
        (case SimilarityResult_init [] [] of
           Inl e \<Rightarrow> Inl e
         | Inr sr \<Rightarrow> Inr (RecommendationResult_init [] sr))
      else
        (let ids = map id_str images
         in case analyze_similarity cosine embeddings ids duplicate_threshold of
              Inl e \<Rightarrow> Inl e
            | Inr sr \<Rightarrow>
                (let duplicate_ids = get_duplicate_ids sr
                 in case select_hero_image images duplicate_ids of
                      Inl e \<Rightarrow> Inl e
                    | Inr hero \<Rightarrow>
                        (let remaining_images = filter (\<lambda>img. id_str img \<noteq> id_str hero) images;
                             ranked_images = rank_remaining_images engine remaining_images [hero]
                                               sr duplicate_ids;
                             recs = recommendation_items hero duplicate_ids ranked_images
                         in Inr (RecommendationResult_init recs sr)))))"

definition update_weights ::
  "real \<Rightarrow> real \<Rightarrow> CarouselRecommendationEngine \<Rightarrow> error + CarouselRecommendationEngine" where
  "update_weights qw dw engine =
     (if \<bar>qw + dw - 1\<bar> > 0.01 then Inl ValueError
      else Inr (engine\<lparr>quality_weight := qw, diversity_weight := dw\<rparr>))"

definition set_duplicate_penalty ::
  "real \<Rightarrow> CarouselRecommendationEngine \<Rightarrow> error + CarouselRecommendationEngine" where
  "set_duplicate_penalty penalty engine =
     (if \<not> (0 \<le> penalty \<and> penalty \<le> 1) then Inl ValueError
      else Inr (engine\<lparr>duplicate_penalty := penalty\<rparr>))"

text \<open>The entry \<^verbatim>\<open>_find_duplicates\<close> appends for the index pair \<open>(i, j)\<close>.\<close>

definition duplicate_entry :: "matrix \<Rightarrow> string list \<Rightarrow> nat \<Rightarrow> nat \<Rightarrow> duplicate" where
  "duplicate_entry m ids i j =
     \<lparr>image_a = ids ! i, image_b = ids ! j, similarity = m ! i ! j\<rparr>"

text \<open>
  An image as the repository's tests build one: an id, a composite score and a
  resolution, the other fields at fixed values.
\<close>

definition test_image :: "string \<Rightarrow> real \<Rightarrow> int \<times> int \<Rightarrow> ImageData" where
  "test_image ident cscore res =
     \<lparr>id_str = ident, filename = ident, path = ident,
      quality_metrics = \<lparr>blur_score = 150, brightness = 128, contrast = 45, resolution = res,
                         composite_score = cscore, flags = [], suggestions = []\<rparr>,
      embedding_of = None\<rparr>"

section \<open>Properties\<close>

subsection \<open>Quality metrics\<close>

lemma flags_unusual_height:
  "''unusual_aspect_ratio'' \<in> set (generate_flags blur bright con res) \<Longrightarrow> snd res > 0"
  by (simp add: generate_flags_def Let_def split: if_splits)

lemma aspect_ratio_section_flags:
  "\<exists>asp. aspect_ratio_section (generate_flags blur bright con res) (fst res) (snd res) = Inr asp"
  using flags_unusual_height [of blur bright con res]
  by (auto simp: aspect_ratio_section_def Let_def)

lemma specific_suggestions_flags:
  "\<exists>s8. specific_suggestions blur bright con res cs (generate_flags blur bright con res) = Inr s8"
  using aspect_ratio_section_flags [of blur bright con res]
  by (auto simp: specific_suggestions_def Let_def)

lemma generate_suggestions_flags:
  "\<exists>sg. generate_suggestions blur bright con res cs (generate_flags blur bright con res) = Inr sg"
  using specific_suggestions_flags [of blur bright con res cs]
  by (auto simp: generate_suggestions_def Let_def)

lemma generate_suggestions_length:
  "generate_suggestions blur bright con res cs fl = Inr sg \<Longrightarrow> length sg \<le> 8"
  by (auto simp: generate_suggestions_def Let_def split: sum.splits)

lemma QualityMetrics_init_total:
  "\<exists>sg. QualityMetrics_init blur bright con res =
     Inr \<lparr>blur_score = blur, brightness = bright, contrast = con, resolution = res,
          composite_score = calculate_composite_score blur bright con res,
          flags = generate_flags blur bright con res, suggestions = sg\<rparr>
     \<and> generate_suggestions blur bright con res (calculate_composite_score blur bright con res)
          (generate_flags blur bright con res) = Inr sg"
  using generate_suggestions_flags [of blur bright con res "calculate_composite_score blur bright con res"]
  by (auto simp: QualityMetrics_init_def Let_def)

lemma composite_score_range:
  "0 \<le> calculate_composite_score s b c r \<and> calculate_composite_score s b c r \<le> 100"
  by (simp add: calculate_composite_score_def Let_def)

lemma composite_score_clamped_spec:
  "calculate_composite_score s b c (w, h) = min (max (100 * spec_composite s b c w h) 0) 100"
  by (simp add: calculate_composite_score_def spec_composite_def Let_def algebra_simps)

lemma spec_composite_unit:
  assumes "0 \<le> s" "0 \<le> b" "b \<le> 255" "0 \<le> c" "0 \<le> w * h"
  shows "0 \<le> spec_composite s b c w h \<and> spec_composite s b c w h \<le> 1"
proof -
  define A where "A = min (s / 1000) 1"
  define B where "B = 1 - \<bar>b - 128\<bar> / 128"
  define C where "C = min (c / 64) 1"
  define D where "D = min (real_of_int (w * h) / real_of_int (1920 * 1080)) 1"
  have b1: "0 \<le> A \<and> A \<le> 1" using assms by (simp add: A_def)
  have b2: "0 \<le> B \<and> B \<le> 1" using assms by (simp add: B_def)
  have b3: "0 \<le> C \<and> C \<le> 1" using assms by (simp add: C_def)
  have "0 \<le> real_of_int (w * h)" using assms(5) of_int_0_le_iff by blast
  then have "0 \<le> real_of_int (w * h) / real_of_int (1920 * 1080)"
    by (rule divide_nonneg_nonneg) simp
  then have b4: "0 \<le> D \<and> D \<le> 1" by (simp add: D_def)
  have eq: "spec_composite s b c w h = 2 / 5 * A + 1 / 4 * B + 1 / 4 * C + 1 / 10 * D"
    by (simp add: spec_composite_def A_def B_def C_def D_def)
  show ?thesis unfolding eq using b1 b2 b3 b4 by linarith
qed

lemma generate_suggestions_few:
  assumes "generate_suggestions blur bright con res cs fl = Inr sg"
    and "fl = []" and "specific_suggestions blur bright con res cs fl = Inr s8"
    and "length s8 < 3"
  shows "sg = s8 @ generic_acknowledgment"
  using assms by (auto simp: generate_suggestions_def generic_acknowledgment_def)

text \<open>
  Claim C5. For raw measurements with sharpness and contrast at least 0 and brightness in
  [0,255], the composite score is the weighted formula of the specification, times 100,
  clamped to [0,100]; it always lies in [0,100], and when the pixel count is not negative
  the clamp changes nothing. The constructor's composite score and flags are functions of
  the four raw measurements alone, so equal measurements give equal derived fields.
\<close>

theorem composite_score_formula:
  assumes "0 \<le> sharpness" and "0 \<le> bright" and "bright \<le> 255" and "0 \<le> con"
  shows "calculate_composite_score sharpness bright con (width, height)
           = min (max (100 * spec_composite sharpness bright con width height) 0) 100
       \<and> 0 \<le> calculate_composite_score sharpness bright con (width, height)
       \<and> calculate_composite_score sharpness bright con (width, height) \<le> 100
       \<and> (0 \<le> width * height \<longrightarrow>
            calculate_composite_score sharpness bright con (width, height)
              = 100 * spec_composite sharpness bright con width height)
       \<and> (\<exists>m. QualityMetrics_init sharpness bright con (width, height) = Inr m
              \<and> composite_score m = calculate_composite_score sharpness bright con (width, height)
              \<and> flags m = generate_flags sharpness bright con (width, height))"
proof -
  have idle: "calculate_composite_score sharpness bright con (width, height)
              = 100 * spec_composite sharpness bright con width height" if "0 \<le> width * height"
    using spec_composite_unit [OF assms that]
    by (simp add: composite_score_clamped_spec)
  obtain sg where "QualityMetrics_init sharpness bright con (width, height) =
     Inr \<lparr>blur_score = sharpness, brightness = bright, contrast = con, resolution = (width, height),
          composite_score = calculate_composite_score sharpness bright con (width, height),
          flags = generate_flags sharpness bright con (width, height), suggestions = sg\<rparr>"
    using QualityMetrics_init_total [of sharpness bright con "(width, height)"] by blast
  then show ?thesis
    using idle composite_score_range [of sharpness bright con "(width, height)"]
      composite_score_clamped_spec [of sharpness bright con width height]
    by simp
qed

theorem composite_score_formula_witness:
  "calculate_composite_score 900 128 60 (2000, 2000) = 1511 / 16
   \<and> 100 * spec_composite 900 128 60 2000 2000 = 1511 / 16"
  using composite_score_formula [of 900 128 60 2000 2000]
  by (simp add: spec_composite_def)

text \<open>
  Claim C9. For an image that cannot be decoded, on the OpenCV path as on the PIL path,
  \<^verbatim>\<open>analyze_image_quality\<close> returns metrics instead of raising: the four raw
  measurements are 0, the resolution is (0,0), the composite score is 0, and flags,
  suggestions and grade of these all-zero metrics are computed without an error.
\<close>

theorem undecodable_image_zero_metrics:
  assumes "undecodable env image_path"
  shows "analyze_image_quality env image_path =
           Inr \<lparr>blur_score = 0, brightness = 0, contrast = 0, resolution = (0, 0),
                composite_score = 0,
                flags = [''blurry'', ''too_dark'', ''low_contrast'', ''inadequate_resolution'',
                         ''very_low_pixel_count''],
                suggestions = [CriticalImageTooSmall 0 0, LowResolutionPixelation,
                  ActionRetakeHigherQuality, UrgentImageBlurry, FixUseTripod,
                  CriticalImageTooDark, SolutionAddLighting, LowContrastFlat]\<rparr>
       \<and> quality_grade 0 = ''POOR''"
proof -
  have att: "\<exists>e. analyze_attempt env image_path = Inl e"
    using assms by (auto simp: undecodable_def analyze_attempt_def split: if_splits)
  have fl: "generate_flags 0 0 0 (0, 0) = [''blurry'', ''too_dark'', ''low_contrast'',
      ''inadequate_resolution'', ''very_low_pixel_count'']"
    by (simp add: generate_flags_def)
  have cs: "calculate_composite_score 0 0 0 (0, 0) = 0"
    by (simp add: calculate_composite_score_def)
  have sp: "specific_suggestions 0 0 0 (0, 0) 0 [''blurry'', ''too_dark'', ''low_contrast'',
      ''inadequate_resolution'', ''very_low_pixel_count''] =
     Inr [CriticalImageTooSmall 0 0, LowResolutionPixelation,
                  ActionRetakeHigherQuality, UrgentImageBlurry, FixUseTripod,
                  CriticalImageTooDark, SolutionAddLighting, LowContrastFlat,
                  FixContrastingBackground, BelowStandard, LowQualityBounceRate]"
    by (simp add: specific_suggestions_def critical_issues_def sharpness_analysis_def
        lighting_analysis_def contrast_analysis_def resolution_quality_def pixel_density_def
        aspect_ratio_section_def overall_assessment_def)
  have init: "QualityMetrics_init 0 0 0 (0, 0) =
           Inr \<lparr>blur_score = 0, brightness = 0, contrast = 0, resolution = (0, 0),
                composite_score = 0,
                flags = [''blurry'', ''too_dark'', ''low_contrast'', ''inadequate_resolution'',
                         ''very_low_pixel_count''],
                suggestions = [CriticalImageTooSmall 0 0, LowResolutionPixelation,
                  ActionRetakeHigherQuality, UrgentImageBlurry, FixUseTripod,
                  CriticalImageTooDark, SolutionAddLighting, LowContrastFlat]\<rparr>"
    by (simp add: QualityMetrics_init_def fl cs generate_suggestions_def sp)
  from att init show ?thesis
    by (auto simp: analyze_image_quality_def quality_grade_def)
qed

theorem undecodable_image_zero_metrics_witness:
  "undecodable \<lparr>HAS_CV2 = True, pil_size = (\<lambda>p. None), cv2_imread = (\<lambda>p. (None :: unit option)),
                shape = (\<lambda>a. (0, 0)), laplacian_var = (\<lambda>a. None), gray_mean = (\<lambda>a. None),
                gray_std = (\<lambda>a. None)\<rparr> ''broken.jpg''
   \<and> composite_score (projr (analyze_image_quality
        \<lparr>HAS_CV2 = True, pil_size = (\<lambda>p. None), cv2_imread = (\<lambda>p. (None :: unit option)),
         shape = (\<lambda>a. (0, 0)), laplacian_var = (\<lambda>a. None), gray_mean = (\<lambda>a. None),
         gray_std = (\<lambda>a. None)\<rparr> ''broken.jpg'')) = 0"
proof -
  have h: "undecodable \<lparr>HAS_CV2 = True, pil_size = (\<lambda>p. None),
      cv2_imread = (\<lambda>p. (None :: unit option)),
      shape = (\<lambda>a. (0, 0)), laplacian_var = (\<lambda>a. None), gray_mean = (\<lambda>a. None),
      gray_std = (\<lambda>a. None)\<rparr> ''broken.jpg''"
    by (simp add: undecodable_def)
  show ?thesis using h undecodable_image_zero_metrics [OF h] by simp
qed

text \<open>
  Claim C10, as stated, fails: sharp, well lit, contrasted measurements at 2000x2000
  produce no flag, and the suggestion list holds six entries without the generic
  acknowledgment, which the source emits only when fewer than three entries precede it.
\<close>

theorem suggestions_generic_counterexample:
  "generate_flags 900 128 60 (2000, 2000) = []
   \<and> generate_suggestions 900 128 60 (2000, 2000)
       (calculate_composite_score 900 128 60 (2000, 2000))
       (generate_flags 900 128 60 (2000, 2000))
     = Inr [ExceptionalSharpness, PerfectLighting, ExcellentContrast,
            PremiumResolution 2000 2000, ExceptionalQuality, MaximizesConversion]
   \<and> MeetsAllStandards \<notin> set [ExceptionalSharpness, PerfectLighting, ExcellentContrast,
            PremiumResolution 2000 2000, ExceptionalQuality, MaximizesConversion]"
proof -
  have fl: "generate_flags 900 128 60 (2000, 2000) = []"
    by (simp add: generate_flags_def)
  have cs: "calculate_composite_score 900 128 60 (2000, 2000) = 1511 / 16"
    by (simp add: calculate_composite_score_def)
  have sp: "specific_suggestions 900 128 60 (2000, 2000) (1511 / 16) []
     = Inr [ExceptionalSharpness, PerfectLighting, ExcellentContrast,
            PremiumResolution 2000 2000, ExceptionalQuality, MaximizesConversion]"
    by (simp add: specific_suggestions_def critical_issues_def sharpness_analysis_def
        lighting_analysis_def contrast_analysis_def resolution_quality_def pixel_density_def
        aspect_ratio_section_def overall_assessment_def)
  show ?thesis by (simp add: fl cs generate_suggestions_def sp)
qed

text \<open>
  Claim C10, amended. With the flags computed from the raw measurements the suggestion
  list is always produced. Whatever the inputs, a produced list has at most 8 entries;
  and when the flag list is empty and the sections before the last one gave fewer than
  three entries, the list is those entries followed by the three generic ones.
\<close>

theorem suggestions_capped_generic_when_few:
  "(\<exists>sg. generate_suggestions blur bright con res (calculate_composite_score blur bright con res)
           (generate_flags blur bright con res) = Inr sg)
   \<and> (\<forall>cs fl sg. generate_suggestions blur bright con res cs fl = Inr sg \<longrightarrow>
         length sg \<le> 8
         \<and> (\<forall>s8. fl = [] \<and> specific_suggestions blur bright con res cs fl = Inr s8
                 \<and> length s8 < 3 \<longrightarrow> sg = s8 @ generic_acknowledgment))"
  using generate_suggestions_flags [of blur bright con res
      "calculate_composite_score blur bright con res"]
    generate_suggestions_length [of blur bright con res]
    generate_suggestions_few [of blur bright con res]
  by blast

theorem suggestions_capped_generic_when_few_witness:
  "generate_flags 500 90 40 (2000, 2000) = []
   \<and> specific_suggestions 500 90 40 (2000, 2000) (calculate_composite_score 500 90 40 (2000, 2000)) []
       = Inr [PremiumResolution 2000 2000, AcceptableQuality]
   \<and> generate_suggestions 500 90 40 (2000, 2000) (calculate_composite_score 500 90 40 (2000, 2000)) []
       = Inr ([PremiumResolution 2000 2000, AcceptableQuality] @ generic_acknowledgment)
   \<and> length ([PremiumResolution 2000 2000, AcceptableQuality] @ generic_acknowledgment) \<le> 8"
proof -
  have fl: "generate_flags 500 90 40 (2000, 2000) = []"
    by (simp add: generate_flags_def)
  have cs: "calculate_composite_score 500 90 40 (2000, 2000) = 4045 / 64"
    by (simp add: calculate_composite_score_def)
  have sp: "specific_suggestions 500 90 40 (2000, 2000) (4045 / 64) []
     = Inr [PremiumResolution 2000 2000, AcceptableQuality]"
    by (simp add: specific_suggestions_def critical_issues_def sharpness_analysis_def
        lighting_analysis_def contrast_analysis_def resolution_quality_def pixel_density_def
        aspect_ratio_section_def overall_assessment_def)
  obtain sg where sg: "generate_suggestions 500 90 40 (2000, 2000) (4045 / 64) [] = Inr sg"
    using suggestions_capped_generic_when_few [of 500 90 40 "(2000, 2000)"]
    by (auto simp: fl cs)
  have len: "length [PremiumResolution 2000 2000, AcceptableQuality] < 3" by simp
  have "sg = [PremiumResolution 2000 2000, AcceptableQuality] @ generic_acknowledgment"
    using suggestions_capped_generic_when_few [of 500 90 40 "(2000, 2000)"] sg sp len by blast
  then show ?thesis using sg by (simp add: fl cs sp generic_acknowledgment_def)
qed

subsection \<open>Embedding generator\<close>

text \<open>
  Claim C6. Without the ML libraries, \<^verbatim>\<open>initialize\<close> leaves the model unset. The
  single-image operation then returns the normalised pseudo-random vector of the file
  fingerprint, but the batch operation raises RuntimeError at its first statement.
\<close>

theorem batch_embedding_without_model_raises:
  "initialize (env\<lparr>HAS_ML_DEPS := False\<rparr>) EmbeddingGenerator_init = Inr EmbeddingGenerator_init
   \<and> fst (generate_embeddings_batch (env\<lparr>HAS_ML_DEPS := False\<rparr>) image_paths
            EmbeddingGenerator_init) = Inl RuntimeError
   \<and> fst (generate_embedding (env\<lparr>HAS_ML_DEPS := False\<rparr>) image_path EmbeddingGenerator_init)
       = Inr (map (\<lambda>x. x / l2_norm (random_normal env (get_image_hash env image_path)))
                (random_normal env (get_image_hash env image_path)))"
  by (simp add: initialize_def generate_embeddings_batch_def generate_embedding_def
      EmbeddingGenerator_init_def Let_def)

subsection \<open>Input contracts\<close>

text \<open>
  Claim C7, as stated, fails for \<^verbatim>\<open>update_weights\<close>: the weights 0.6 and 0.405 do not
  sum to 1.0 and are accepted, since the check tolerates a deviation of 0.01.
\<close>

theorem update_weights_counterexample:
  "(0.6::real) + 0.405 \<noteq> 1
   \<and> update_weights 0.6 0.405 CarouselRecommendationEngine_init
       = Inr \<lparr>quality_weight = 0.6, diversity_weight = 0.405, duplicate_penalty = 0.3\<rparr>"
  by (simp add: update_weights_def CarouselRecommendationEngine_init_def)

text \<open>
  Claim C7, amended. \<^verbatim>\<open>analyze_similarity\<close> raises ValueError when the number of
  embeddings differs from the number of ids; \<^verbatim>\<open>update_weights\<close> raises exactly when
  the sum of the weights is more than 0.01 away from 1.0 and stores the weights otherwise;
  \<^verbatim>\<open>set_duplicate_penalty\<close> raises exactly when the penalty is outside [0,1] and
  stores it otherwise.
\<close>

theorem contract_violations_raise:
  "(length embeddings \<noteq> length ids \<longrightarrow>
      analyze_similarity cosine embeddings ids threshold = Inl ValueError)
   \<and> (update_weights qw dw engine = Inl ValueError \<longleftrightarrow> \<bar>qw + dw - 1\<bar> > 0.01)
   \<and> (\<bar>qw + dw - 1\<bar> \<le> 0.01 \<longrightarrow>
        update_weights qw dw engine
          = Inr (engine\<lparr>quality_weight := qw, diversity_weight := dw\<rparr>))
   \<and> (set_duplicate_penalty penalty engine = Inl ValueError \<longleftrightarrow> (penalty < 0 \<or> penalty > 1))
   \<and> (0 \<le> penalty \<and> penalty \<le> 1 \<longrightarrow>
        set_duplicate_penalty penalty engine = Inr (engine\<lparr>duplicate_penalty := penalty\<rparr>))"
  by (auto simp: analyze_similarity_def update_weights_def set_duplicate_penalty_def)

theorem contract_violations_raise_witness:
  "analyze_similarity (\<lambda>es. None) [()] [] 0.92 = Inl ValueError
   \<and> update_weights 0.7 0.2 CarouselRecommendationEngine_init = Inl ValueError
   \<and> update_weights 0.6 0.4 CarouselRecommendationEngine_init
       = Inr (CarouselRecommendationEngine_init\<lparr>quality_weight := 0.6, diversity_weight := 0.4\<rparr>)
   \<and> set_duplicate_penalty 1.5 CarouselRecommendationEngine_init = Inl ValueError
   \<and> set_duplicate_penalty 0.5 CarouselRecommendationEngine_init
       = Inr (CarouselRecommendationEngine_init\<lparr>duplicate_penalty := 0.5\<rparr>)"
  using contract_violations_raise [of "[()]" "[]" "\<lambda>es. None" "0.92" "0.7" "0.2"
      CarouselRecommendationEngine_init "1.5"]
    contract_violations_raise [of "[()]" "[]" "\<lambda>es. None" "0.92" "0.6" "0.4"
      CarouselRecommendationEngine_init "0.5"]
  by simp

subsection \<open>Similarity and duplicates\<close>

lemma find_duplicates_row_closed:
  assumes "i < length m" and "\<forall>j\<in>set js. j < length (m ! i)"
  shows "find_duplicates_row m ids t i js acc
         = Inr (acc @ map (duplicate_entry m ids i) (filter (\<lambda>j. m ! i ! j > t) js))"
  using assms
  by (induction js arbitrary: acc) (simp_all add: matrix_entry_def duplicate_entry_def)

lemma find_duplicates_rows_closed:
  assumes "\<forall>i\<in>set is. i < length m \<and> (\<forall>j\<in>set [i + 1 ..< n]. j < length (m ! i))"
  shows "find_duplicates_rows m ids t n is acc
         = Inr (acc @ concat (map (\<lambda>i. map (duplicate_entry m ids i)
                                          (filter (\<lambda>j. m ! i ! j > t) [i + 1 ..< n])) is))"
  using assms
proof (induction "is" arbitrary: acc)
  case Nil
  then show ?case by simp
next
  case (Cons i "is")
  then have row: "find_duplicates_row m ids t i [i + 1 ..< n] acc
      = Inr (acc @ map (duplicate_entry m ids i) (filter (\<lambda>j. m ! i ! j > t) [i + 1 ..< n]))"
    by (intro find_duplicates_row_closed) simp_all
  from Cons row show ?case by simp
qed

lemma square_matrix_row:
  "square_matrix n m \<Longrightarrow> i < n \<Longrightarrow> i < length m \<and> length (m ! i) = n"
  by (simp add: square_matrix_def list_all_length)

lemma find_duplicates_closed:
  assumes "square_matrix (length ids) m"
  shows "find_duplicates m ids t
         = Inr (concat (map (\<lambda>i. map (duplicate_entry m ids i)
                  (filter (\<lambda>j. m ! i ! j > t) [i + 1 ..< length ids])) [0 ..< length ids]))"
proof -
  have "\<forall>i\<in>set [0 ..< length ids]. i < length m
          \<and> (\<forall>j\<in>set [i + 1 ..< length ids]. j < length (m ! i))"
    using square_matrix_row [OF assms] by auto
  from find_duplicates_rows_closed [OF this, of ids t "[]"]
  show ?thesis by (simp add: find_duplicates_def Let_def)
qed

lemma duplicate_row_member:
  "d \<in> set (map (duplicate_entry m ids i) (filter (\<lambda>j. m ! i ! j > t) [i + 1 ..< n]))
   \<longleftrightarrow> (\<exists>j. i < j \<and> j < n \<and> m ! i ! j > t \<and> d = duplicate_entry m ids i j)"
  by (simp add: image_iff) (metis Suc_le_eq)

lemma in_concat_map_upt:
  "d \<in> set (concat (map F [0 ..< n])) \<longleftrightarrow> (\<exists>i<n. d \<in> set (F i))"
  by auto

lemma duplicate_entries_member:
  "d \<in> set (concat (map (\<lambda>i. map (duplicate_entry m ids i)
                  (filter (\<lambda>j. m ! i ! j > t) [i + 1 ..< n])) [0 ..< n]))
   \<longleftrightarrow> (\<exists>i j. i < j \<and> j < n \<and> m ! i ! j > t \<and> d = duplicate_entry m ids i j)"
proof -
  have "d \<in> set (concat (map (\<lambda>i. map (duplicate_entry m ids i)
                  (filter (\<lambda>j. m ! i ! j > t) [i + 1 ..< n])) [0 ..< n]))
     \<longleftrightarrow> (\<exists>i<n. d \<in> set (map (duplicate_entry m ids i)
                  (filter (\<lambda>j. m ! i ! j > t) [i + 1 ..< n])))"
    by (rule in_concat_map_upt)
  also have "\<dots> \<longleftrightarrow> (\<exists>i<n. \<exists>j. i < j \<and> j < n \<and> m ! i ! j > t \<and> d = duplicate_entry m ids i j)"
    by (simp only: duplicate_row_member)
  also have "\<dots> \<longleftrightarrow> (\<exists>i j. i < j \<and> j < n \<and> m ! i ! j > t \<and> d = duplicate_entry m ids i j)"
  proof (intro iffI)
    assume "\<exists>i<n. \<exists>j. i < j \<and> j < n \<and> m ! i ! j > t \<and> d = duplicate_entry m ids i j"
    then show "\<exists>i j. i < j \<and> j < n \<and> m ! i ! j > t \<and> d = duplicate_entry m ids i j"
      by blast
  next
    assume "\<exists>i j. i < j \<and> j < n \<and> m ! i ! j > t \<and> d = duplicate_entry m ids i j"
    then obtain i j where ij: "i < j" "j < n" "m ! i ! j > t" "d = duplicate_entry m ids i j"
      by blast
    then have "i < n" by simp
    with ij show "\<exists>i<n. \<exists>j. i < j \<and> j < n \<and> m ! i ! j > t \<and> d = duplicate_entry m ids i j"
      by blast
  qed
  finally show ?thesis .
qed

text \<open>
  Claim C3. For a matrix with one row and one column per image id,
  \<^verbatim>\<open>_find_duplicates\<close> returns a list in which the entry of an index pair \<open>i < j\<close> occurs
  exactly when the matrix entry at \<open>(i, j)\<close> is strictly greater than the threshold,
  and which holds nothing but such entries; the list at a greater threshold is contained
  in the list at a smaller one.
\<close>

theorem duplicates_strict_and_monotone:
  assumes "square_matrix (length ids) m"
  shows "\<exists>ds. find_duplicates m ids t = Inr ds
           \<and> (\<forall>i j. i < j \<and> j < length ids \<longrightarrow>
                 (duplicate_entry m ids i j \<in> set ds \<longleftrightarrow> m ! i ! j > t))
           \<and> (\<forall>d\<in>set ds. \<exists>i j. i < j \<and> j < length ids \<and> d = duplicate_entry m ids i j)
           \<and> (\<forall>t2. t < t2 \<longrightarrow>
                 (\<exists>ds2. find_duplicates m ids t2 = Inr ds2 \<and> set ds2 \<subseteq> set ds))"
proof -
  define D where "D = (\<lambda>t. concat (map (\<lambda>i. map (duplicate_entry m ids i)
                  (filter (\<lambda>j. m ! i ! j > t) [i + 1 ..< length ids])) [0 ..< length ids]))"
  have closed: "find_duplicates m ids t' = Inr (D t')" for t'
    unfolding D_def by (rule find_duplicates_closed [OF assms])
  have mem: "d \<in> set (D t') \<longleftrightarrow>
      (\<exists>i j. i < j \<and> j < length ids \<and> m ! i ! j > t' \<and> d = duplicate_entry m ids i j)" for d t'
    unfolding D_def by (rule duplicate_entries_member)
  have iff: "duplicate_entry m ids i j \<in> set (D t) \<longleftrightarrow> m ! i ! j > t"
    if "i < j" "j < length ids" for i j
  proof
    assume "duplicate_entry m ids i j \<in> set (D t)"
    then obtain i' j' where "m ! i' ! j' > t"
      and "duplicate_entry m ids i j = duplicate_entry m ids i' j'"
      unfolding mem by blast
    then show "m ! i ! j > t" by (simp add: duplicate_entry_def)
  next
    assume "m ! i ! j > t"
    with that show "duplicate_entry m ids i j \<in> set (D t)" unfolding mem by blast
  qed
  have shape: "\<forall>d\<in>set (D t). \<exists>i j. i < j \<and> j < length ids \<and> d = duplicate_entry m ids i j"
  proof (intro ballI)
    fix d assume "d \<in> set (D t)"
    then obtain i j where "i < j" "j < length ids" "d = duplicate_entry m ids i j"
      unfolding mem by blast
    then show "\<exists>i j. i < j \<and> j < length ids \<and> d = duplicate_entry m ids i j" by blast
  qed
  have mono: "set (D t2) \<subseteq> set (D t)" if "t < t2" for t2
  proof
    fix d assume "d \<in> set (D t2)"
    then obtain i j where "i < j" "j < length ids" "m ! i ! j > t2" "d = duplicate_entry m ids i j"
      unfolding mem by blast
    with that have "i < j \<and> j < length ids \<and> m ! i ! j > t \<and> d = duplicate_entry m ids i j"
      by simp
    then show "d \<in> set (D t)" unfolding mem by blast
  qed
  have monoE: "\<forall>t2. t < t2 \<longrightarrow> (\<exists>ds2. find_duplicates m ids t2 = Inr ds2 \<and> set ds2 \<subseteq> set (D t))"
  proof (intro allI impI)
    fix t2 assume "t < t2"
    then have "set (D t2) \<subseteq> set (D t)" by (rule mono)
    with closed [of t2] show "\<exists>ds2. find_duplicates m ids t2 = Inr ds2 \<and> set ds2 \<subseteq> set (D t)"
      by (intro exI [of _ "D t2"] conjI)
  qed
  have iffA: "\<forall>i j. i < j \<and> j < length ids \<longrightarrow>
                 (duplicate_entry m ids i j \<in> set (D t) \<longleftrightarrow> m ! i ! j > t)"
  proof (intro allI impI)
    fix i j assume "i < j \<and> j < length ids"
    then show "duplicate_entry m ids i j \<in> set (D t) \<longleftrightarrow> m ! i ! j > t"
      using iff [of i j] by (elim conjE)
  qed
  show ?thesis
    by (intro exI [of _ "D t"] conjI closed iffA shape monoE)
qed

theorem duplicates_strict_and_monotone_witness:
  "square_matrix (length [''a'', ''b'']) [[1, 19 / 20], [19 / 20, 1]]
   \<and> find_duplicates [[1, 19 / 20], [19 / 20, 1]] [''a'', ''b''] (92 / 100)
       = Inr [\<lparr>image_a = ''a'', image_b = ''b'', similarity = 19 / 20\<rparr>]
   \<and> find_duplicates [[1, 19 / 20], [19 / 20, 1]] [''a'', ''b''] (19 / 20) = Inr []"
proof -
  have h: "square_matrix (length [''a'', ''b'']) [[1, 19 / 20], [19 / 20, 1]]"
    by (simp add: square_matrix_def)
  show ?thesis
    using h duplicates_strict_and_monotone [OF h, of "92 / 100"]
    by (simp add: find_duplicates_def matrix_entry_def upt_rec)
qed

lemma index_of_less: "index_of xs x = Some i \<Longrightarrow> i < length xs"
  by (induction xs arbitrary: i) (auto split: if_splits)

lemma get_similarity_total:
  assumes "square_matrix (length (image_ids r)) (similarity_matrix r)"
  shows "\<not> isl (get_similarity r a b)"
proof (cases "index_of (image_ids r) a")
  case None
  then show ?thesis by (simp add: get_similarity_def)
next
  case (Some ia)
  show ?thesis
  proof (cases "index_of (image_ids r) b")
    case None
    with Some show ?thesis by (simp add: get_similarity_def)
  next
    case (Some ib)
    from \<open>index_of (image_ids r) a = Some ia\<close> have "ia < length (image_ids r)"
      by (rule index_of_less)
    from square_matrix_row [OF assms this] index_of_less [OF Some]
    have "ia < length (similarity_matrix r) \<and> ib < length (similarity_matrix r ! ia)"
      by simp
    with Some \<open>index_of (image_ids r) a = Some ia\<close> show ?thesis
      by (simp add: get_similarity_def matrix_entry_def)
  qed
qed

lemma Max_insert_max:
  "finite A \<Longrightarrow> Max (insert (max a v) A) = Max (insert a (insert v A))"
  by (cases "A = {}") (simp_all add: max.assoc)

lemma max_similarity_loop_ok:
  assumes "\<forall>s\<in>set S. \<not> isl (get_similarity r x s)"
  shows "max_similarity_loop r x S acc
         = Inr (Max (insert acc ((\<lambda>s. projr (get_similarity r x s)) ` set S)))"
  using assms
proof (induction S arbitrary: acc)
  case Nil
  then show ?case by simp
next
  case (Cons s S)
  then obtain v where v: "get_similarity r x s = Inr v"
    by (cases "get_similarity r x s") auto
  have "max_similarity_loop r x (s # S) acc = max_similarity_loop r x S (max acc v)"
    by (simp add: v)
  also have "\<dots> = Inr (Max (insert (max acc v) ((\<lambda>s. projr (get_similarity r x s)) ` set S)))"
    using Cons by simp
  also have "\<dots> = Inr (Max (insert acc (insert v ((\<lambda>s. projr (get_similarity r x s)) ` set S))))"
    by (simp only: Max_insert_max [OF finite_imageI [OF finite_set]])
  finally show ?case by (simp add: v)
qed

text \<open>
  Claim C4, as stated, fails: with a similarity of -1/2 between the candidate and the
  only selected image the score is 1, not 1 - (-1/2), because the running maximum
  starts at 0.
\<close>

theorem diversity_one_minus_max_counterexample:
  "get_similarity \<lparr>similarity_matrix = [[1, - 1 / 2], [- 1 / 2, 1]],
                   image_ids = [''a'', ''b''], duplicates = []\<rparr> ''a'' ''b'' = Inr (- 1 / 2)
   \<and> get_diversity_score ''a'' [''b'']
        \<lparr>similarity_matrix = [[1, - 1 / 2], [- 1 / 2, 1]],
         image_ids = [''a'', ''b''], duplicates = []\<rparr> = 1
   \<and> get_diversity_score ''a'' [''b'']
        \<lparr>similarity_matrix = [[1, - 1 / 2], [- 1 / 2, 1]],
         image_ids = [''a'', ''b''], duplicates = []\<rparr> \<noteq> 1 - (- 1 / 2)"
  by (simp add: get_diversity_score_def get_similarity_def matrix_entry_def)

text \<open>
  Claim C4, amended. Over a result whose matrix has one row and one column per image id,
  no similarity lookup raises, and the diversity score of a candidate against a non-empty
  selection is 1 minus the maximum of 0 and the similarities between the candidate and
  the selected ids; against the empty selection it is exactly 1.
\<close>

theorem diversity_score_clamped:
  assumes "square_matrix (length (image_ids r)) (similarity_matrix r)"
  shows "get_diversity_score x [] r = 1
       \<and> (\<forall>s. \<not> isl (get_similarity r x s))
       \<and> (S \<noteq> [] \<longrightarrow> get_diversity_score x S r
             = 1 - Max (insert 0 ((\<lambda>s. projr (get_similarity r x s)) ` set S)))"
proof -
  have tot: "\<forall>s. \<not> isl (get_similarity r x s)"
    using get_similarity_total [OF assms] by blast
  then have "max_similarity_loop r x S 0
         = Inr (Max (insert 0 ((\<lambda>s. projr (get_similarity r x s)) ` set S)))"
    by (intro max_similarity_loop_ok) blast
  then show ?thesis using tot by (simp add: get_diversity_score_def)
qed

theorem diversity_score_clamped_witness:
  "square_matrix 2 [[1, 4 / 5], [4 / 5, 1]]
   \<and> get_diversity_score ''a'' [''b'']
        \<lparr>similarity_matrix = [[1, 4 / 5], [4 / 5, 1]],
         image_ids = [''a'', ''b''], duplicates = []\<rparr> = 1 / 5
   \<and> get_diversity_score ''a'' []
        \<lparr>similarity_matrix = [[1, 4 / 5], [4 / 5, 1]],
         image_ids = [''a'', ''b''], duplicates = []\<rparr> = 1"
proof -
  have h: "square_matrix (length (image_ids \<lparr>similarity_matrix = [[1, 4 / 5], [4 / 5, 1]],
         image_ids = [''a'', ''b''], duplicates = []\<rparr>))
       (similarity_matrix \<lparr>similarity_matrix = [[1, 4 / 5], [4 / 5, 1]],
         image_ids = [''a'', ''b''], duplicates = []\<rparr>)"
    by (simp add: square_matrix_def)
  have g: "get_similarity \<lparr>similarity_matrix = [[1, 4 / 5], [4 / 5, 1]],
         image_ids = [''a'', ''b''], duplicates = []\<rparr> ''a'' ''b'' = Inr (4 / 5)"
    by (simp add: get_similarity_def matrix_entry_def)
  show ?thesis
    using h diversity_score_clamped [OF h, of "''a''" "[''b'']"]
    by (simp add: g square_matrix_def)
qed

subsection \<open>Hero selection\<close>

lemma max_loop_first_max:
  "\<exists>pre post. best # xs = pre @ max_loop key best xs # post
      \<and> (\<forall>y\<in>set pre. key y < key (max_loop key best xs))
      \<and> (\<forall>y\<in>set (best # xs). key y \<le> key (max_loop key best xs))"
proof (induction xs arbitrary: best)
  case Nil
  show ?case by (rule exI [of _ "[]"], rule exI [of _ "[]"]) simp
next
  case (Cons x xs)
  define b where "b = (if key x > key best then x else best)"
  define r where "r = max_loop key b xs"
  have r: "max_loop key best (x # xs) = r" by (simp add: r_def b_def)
  from Cons [of b] obtain pre post where
    split: "b # xs = pre @ r # post" and
    before: "\<forall>y\<in>set pre. key y < key r" and
    all: "\<forall>y\<in>set (b # xs). key y \<le> key r"
    unfolding r_def by blast
  have "\<exists>pre post. best # x # xs = pre @ r # post
      \<and> (\<forall>y\<in>set pre. key y < key r)
      \<and> (\<forall>y\<in>set (best # x # xs). key y \<le> key r)"
  proof (cases "key x > key best")
    case True
    then have bx: "b = x" by (simp add: b_def)
    from all bx have xr: "key x \<le> key r" by simp
    have "best # x # xs = (best # pre) @ r # post" using split bx by simp
    moreover have "\<forall>y\<in>set (best # pre). key y < key r" using before True xr by auto
    moreover have "\<forall>y\<in>set (best # x # xs). key y \<le> key r" using all bx True xr by auto
    ultimately show ?thesis by blast
  next
    case False
    then have bb: "b = best" by (simp add: b_def)
    from all bb have br: "key best \<le> key r" by simp
    have allx: "\<forall>y\<in>set (best # x # xs). key y \<le> key r" using all bb False br by auto
    show ?thesis
    proof (cases pre)
      case Nil
      with split bb have "best # x # xs = [] @ r # (x # xs)" by simp
      with allx show ?thesis by (metis empty_iff list.set(1))
    next
      case (Cons p pre')
      with split bb have p: "p = best" and xs: "xs = pre' @ r # post" by simp_all
      from before Cons p have "key best < key r" by simp
      with False before Cons have "\<forall>y\<in>set (best # x # pre'). key y < key r" by auto
      moreover have "best # x # xs = (best # x # pre') @ r # post" using xs by simp
      ultimately show ?thesis using allx by blast
    qed
  qed
  then show ?case by (simp only: r)
qed

lemma hero_score_spec: "hero_quality_score img dups = spec_hero_score img dups"
  by (simp add: hero_quality_score_def spec_hero_score_def Let_def)

lemma select_hero_image_first_max:
  assumes "images \<noteq> []"
  shows "\<exists>k<length images. select_hero_image images dups = Inr (images ! k)
      \<and> (\<forall>j<length images. hero_quality_score (images ! j) dups
                             \<le> hero_quality_score (images ! k) dups)
      \<and> (\<forall>j<k. hero_quality_score (images ! j) dups < hero_quality_score (images ! k) dups)"
proof -
  define f where "f = (\<lambda>img. (img, hero_quality_score img dups))"
  from assms obtain a rest where im: "images = a # rest" by (cases images) auto
  define r where "r = max_loop snd (f a) (map f rest)"
  from max_loop_first_max [of "f a" "map f rest" snd] obtain pre post where
    split: "f a # map f rest = pre @ r # post" and
    before: "\<forall>y\<in>set pre. snd y < snd r" and
    all: "\<forall>y\<in>set (f a # map f rest). snd y \<le> snd r"
    unfolding r_def by blast
  have mf: "map f images = pre @ r # post" using split im by simp
  define k where "k = length pre"
  have klt: "k < length images"
    using arg_cong [OF mf, of length] by (simp add: k_def)
  have rk: "r = f (images ! k)"
    using nth_map [OF klt, of f] mf by (simp add: k_def)
  have sel: "select_hero_image images dups = Inr (images ! k)"
    using rk by (simp add: select_hero_image_def py_max_def im f_def [symmetric] r_def [symmetric])
       (simp add: f_def)
  have le: "hero_quality_score (images ! j) dups \<le> hero_quality_score (images ! k) dups"
    if "j < length images" for j
  proof -
    have "map f images ! j \<in> set (map f images)" using that by (intro nth_mem) simp
    then have "f (images ! j) \<in> set (map f images)" using that by (simp only: nth_map)
    then have "f (images ! j) \<in> set (f a # map f rest)" unfolding im by simp
    then have "snd (f (images ! j)) \<le> snd r" using all by blast
    then show ?thesis by (simp add: rk f_def)
  qed
  have lt: "hero_quality_score (images ! j) dups < hero_quality_score (images ! k) dups"
    if "j < k" for j
  proof -
    have "map f images ! j = pre ! j" using that mf by (simp add: k_def nth_append)
    moreover have "j < length images" using that klt by simp
    ultimately have "f (images ! j) = pre ! j" by simp
    then have "f (images ! j) \<in> set pre" using that by (simp add: k_def)
    then have "snd (f (images ! j)) < snd r" using before by blast
    then show ?thesis by (simp add: rk f_def)
  qed
  show ?thesis using klt sel le lt by blast
qed

text \<open>
  Claim C2. The score computed for every image in \<^verbatim>\<open>_select_hero_image\<close> is the
  composite score, times 0.2 for an id in the duplicate set, times 1.1 for a resolution of
  at least 1200 by 800. For a non-empty batch the selected hero is an image of maximal
  score, and every image before it in input order has a strictly smaller score.
\<close>

theorem hero_is_first_maximum:
  assumes "images \<noteq> []"
  shows "(\<forall>img. hero_quality_score img dups = spec_hero_score img dups)
    \<and> (\<exists>k<length images. select_hero_image images dups = Inr (images ! k)
          \<and> (\<forall>j<length images. spec_hero_score (images ! j) dups
                                 \<le> spec_hero_score (images ! k) dups)
          \<and> (\<forall>j<k. spec_hero_score (images ! j) dups < spec_hero_score (images ! k) dups))"
  using select_hero_image_first_max [OF assms, of dups]
  by (simp add: hero_score_spec)

theorem hero_is_first_maximum_witness:
  "[test_image ''a'' 70 (800, 600), test_image ''b'' 90 (800, 600),
    test_image ''c'' 90 (800, 600)] \<noteq> []
   \<and> select_hero_image [test_image ''a'' 70 (800, 600), test_image ''b'' 90 (800, 600),
        test_image ''c'' 90 (800, 600)] {} = Inr (test_image ''b'' 90 (800, 600))"
proof -
  have e: "select_hero_image [test_image ''a'' 70 (800, 600), test_image ''b'' 90 (800, 600),
        test_image ''c'' 90 (800, 600)] {} = Inr (test_image ''b'' 90 (800, 600))"
    by (simp add: select_hero_image_def py_max_def hero_quality_score_def test_image_def Let_def)
  have ne: "[test_image ''a'' 70 (800, 600), test_image ''b'' 90 (800, 600),
    test_image ''c'' 90 (800, 600)] \<noteq> []" by simp
  show ?thesis
    using hero_is_first_maximum [OF ne, of "{}"]
    by (simp only: e ne simp_thms)
qed

subsection \<open>Ranking output\<close>

lemma square_eye: "square_matrix n (eye n)"
  by (simp add: square_matrix_def eye_def list_all_iff)

lemma compute_similarity_matrix_square:
  assumes "\<forall>sm. cosine embeddings = Some sm \<longrightarrow> square_matrix (length embeddings) sm"
    and "embeddings \<noteq> []"
  shows "square_matrix (length embeddings) (compute_similarity_matrix cosine embeddings)"
  using assms by (auto simp: compute_similarity_matrix_def square_eye split: option.splits)

lemma analyze_similarity_ok:
  assumes "length embeddings = length ids"
    and "\<forall>sm. cosine embeddings = Some sm \<longrightarrow> square_matrix (length embeddings) sm"
  shows "\<exists>sr. analyze_similarity cosine embeddings ids t = Inr sr"
proof (cases "embeddings = []")
  case True
  with assms(1) have "ids = []" by simp
  with True show ?thesis
    by (simp add: analyze_similarity_def SimilarityResult_init_def find_duplicates_def)
next
  case False
  define sm where "sm = compute_similarity_matrix cosine embeddings"
  have sq: "square_matrix (length ids) sm"
    using compute_similarity_matrix_square [of cosine embeddings] assms False
    by (simp add: sm_def)
  obtain d0 where d0: "find_duplicates sm ids (92 / 100) = Inr d0"
    using find_duplicates_closed [OF sq] by blast
  obtain d1 where d1: "find_duplicates sm ids t = Inr d1"
    using find_duplicates_closed [OF sq] by blast
  show ?thesis
    using False assms(1) d0 d1
    by (simp add: analyze_similarity_def sm_def [symmetric] SimilarityResult_init_def)
qed

lemma filter_other_ids_length:
  "distinct (map f xs) \<Longrightarrow> x \<in> set xs
   \<Longrightarrow> length (filter (\<lambda>y. f y \<noteq> f x) xs) = length xs - 1"
proof (induction xs)
  case Nil
  then show ?case by simp
next
  case (Cons a xs)
  show ?case
  proof (cases "a = x")
    case True
    with Cons.prems have "f x \<notin> f ` set xs" by simp
    then have "\<forall>y\<in>set xs. f y \<noteq> f x" by (metis imageI)
    then have "filter (\<lambda>y. f y \<noteq> f x) xs = xs" by (simp add: filter_id_conv)
    with True show ?thesis by simp
  next
    case False
    with Cons.prems have x: "x \<in> set xs" and "f a \<noteq> f x" by auto
    moreover from x have "length xs \<ge> 1" by (cases xs) auto
    ultimately show ?thesis using Cons by simp
  qed
qed

lemma rank_remaining_images_length:
  "length (rank_remaining_images engine images sel sr dups) = length images"
  by (simp add: rank_remaining_images_def Let_def)

lemma positions_of_zip:
  "length is = length rs \<Longrightarrow>
   map position (map (\<lambda>(i, (img, sc, rs)).
              \<lparr>position = int i, image_id = id_str img, score = sc, reason = rs,
               is_hero = False\<rparr>) (zip is rs)) = map int is"
  by (induction "is" rs rule: list_induct2) (auto split: prod.splits)

lemma no_hero_in_zip:
  "filter is_hero (map (\<lambda>(i, (img, sc, rs)).
              \<lparr>position = int i, image_id = id_str img, score = sc, reason = rs,
               is_hero = False\<rparr>) (zip is rs)) = []"
  by (auto simp: filter_empty_conv split: prod.splits)

lemma positions_cons:
  "length is = length rs \<Longrightarrow>
   map position (\<lparr>position = 1, image_id = a, score = b, reason = c, is_hero = True\<rparr>
     # map (\<lambda>(i, (img, sc, rs)).
              \<lparr>position = int i, image_id = id_str img, score = sc, reason = rs,
               is_hero = False\<rparr>) (zip is rs)) = 1 # map int is"
  using positions_of_zip [of "is" rs] by simp

lemma recommendation_items_positions:
  "map position (recommendation_items hero dups ranked) = map int [1 ..< 2 + length ranked]"
proof -
  have len: "length [2 ..< 2 + length ranked] = length ranked"
    unfolding length_upt by arith
  have items: "map position (recommendation_items hero dups ranked)
      = 1 # map int [2 ..< 2 + length ranked]"
    unfolding recommendation_items_def by (rule positions_cons [OF len])
  have "[1 ..< 2 + length ranked] = 1 # [Suc 1 ..< 2 + length ranked]"
    by (rule upt_conv_Cons) simp
  moreover have "Suc 1 = 2" by simp
  ultimately have "[1 ..< 2 + length ranked] = 1 # [2 ..< 2 + length ranked]"
    by (simp only:)
  then have "map int [1 ..< 2 + length ranked] = 1 # map int [2 ..< 2 + length ranked]"
    by (simp only: list.map of_nat_1)
  with items show ?thesis by (simp only:)
qed

lemma recommendation_items_hero:
  "filter is_hero (recommendation_items hero dups ranked)
     = [hd (recommendation_items hero dups ranked)]
   \<and> position (hd (recommendation_items hero dups ranked)) = 1
   \<and> is_hero (hd (recommendation_items hero dups ranked))
   \<and> List.find is_hero (recommendation_items hero dups ranked)
       = Some (hd (recommendation_items hero dups ranked))"
  by (simp add: recommendation_items_def no_hero_in_zip)

text \<open>
  Claim C1. For a non-empty list of images with pairwise distinct ids and as many
  embeddings as images, \<^verbatim>\<open>generate_recommendations\<close> returns a result (the external
  cosine computation yields an n-by-n matrix or fails, and a failure is replaced by the
  identity matrix) whose positions are 1, 2, ..., n in this order, whose only item with a
  true hero flag is the first one, and that item has position 1.
\<close>

theorem recommendations_positions_and_hero:
  assumes "images \<noteq> []" and "distinct (map id_str images)"
    and "length embeddings = length images"
    and "\<forall>sm. cosine embeddings = Some sm \<longrightarrow> square_matrix (length embeddings) sm"
  shows "\<exists>res. generate_recommendations engine cosine images embeddings t = Inr res
     \<and> map position (recommendations res) = map int [1 ..< length images + 1]
     \<and> filter is_hero (recommendations res) = [hd (recommendations res)]
     \<and> position (hd (recommendations res)) = 1
     \<and> hero_image res = Some (hd (recommendations res))"
proof -
  obtain sr where sr: "analyze_similarity cosine embeddings (map id_str images) t = Inr sr"
    using analyze_similarity_ok [of embeddings "map id_str images" cosine t] assms(3,4)
    by auto
  define dups where "dups = get_duplicate_ids sr"
  obtain k where k: "k < length images"
    and hero: "select_hero_image images dups = Inr (images ! k)"
    using select_hero_image_first_max [OF assms(1), of dups] by blast
  define h where "h = images ! k"
  have hin: "h \<in> set images" using k by (simp add: h_def)
  define remaining where "remaining = filter (\<lambda>img. id_str img \<noteq> id_str h) images"
  define ranked where "ranked = rank_remaining_images engine remaining [h] sr dups"
  define recs where "recs = recommendation_items h dups ranked"
  have "length remaining = length images - 1"
    unfolding remaining_def by (rule filter_other_ids_length [OF assms(2) hin])
  then have lr: "length ranked = length images - 1"
    by (simp add: ranked_def rank_remaining_images_length)
  have "length images \<ge> 1" using assms(1) by (cases images) auto
  with lr have "2 + length ranked = length images + 1" by simp
  then have pos: "map position recs = map int [1 ..< length images + 1]"
    using recommendation_items_positions [of h dups ranked] by (simp only: recs_def)
  have gen: "generate_recommendations engine cosine images embeddings t
      = Inr (RecommendationResult_init recs sr)"
    using assms(1) hero
    by (simp add: generate_recommendations_def sr Let_def dups_def [symmetric]
        h_def [symmetric] remaining_def [symmetric] ranked_def [symmetric] recs_def [symmetric])
  have fields: "recommendations (RecommendationResult_init recs sr) = recs
      \<and> hero_image (RecommendationResult_init recs sr) = List.find is_hero recs"
    by (simp add: RecommendationResult_init_def)
  show ?thesis
    using gen fields pos recommendation_items_hero [of h dups ranked]
    by (simp add: recs_def)
qed

theorem recommendations_positions_and_hero_witness:
  "[test_image ''a'' 90 (800, 600), test_image ''b'' 70 (800, 600),
    test_image ''c'' 50 (800, 600)] \<noteq> []
   \<and> distinct (map id_str [test_image ''a'' 90 (800, 600), test_image ''b'' 70 (800, 600),
        test_image ''c'' 50 (800, 600)])
   \<and> (\<exists>res. generate_recommendations CarouselRecommendationEngine_init (\<lambda>es. None)
          [test_image ''a'' 90 (800, 600), test_image ''b'' 70 (800, 600),
           test_image ''c'' 50 (800, 600)] [(), (), ()] (92 / 100) = Inr res
        \<and> map position (recommendations res) = [1, 2, 3]
        \<and> filter is_hero (recommendations res) = [hd (recommendations res)]
        \<and> position (hd (recommendations res)) = 1)"
proof -
  have ne: "[test_image ''a'' 90 (800, 600), test_image ''b'' 70 (800, 600),
    test_image ''c'' 50 (800, 600)] \<noteq> []" by simp
  have di: "distinct (map id_str [test_image ''a'' 90 (800, 600), test_image ''b'' 70 (800, 600),
        test_image ''c'' 50 (800, 600)])" by (simp add: test_image_def)
  have le: "length [(), (), ()] = length [test_image ''a'' 90 (800, 600),
    test_image ''b'' 70 (800, 600), test_image ''c'' 50 (800, 600)]" by simp
  have co: "\<forall>sm. (\<lambda>es. None) [(), (), ()] = Some sm
      \<longrightarrow> square_matrix (length [(), (), ()]) sm" by simp
  have up: "map int [1 ..< length [test_image ''a'' 90 (800, 600),
    test_image ''b'' 70 (800, 600), test_image ''c'' 50 (800, 600)] + 1] = [1, 2, 3]"
    by (simp add: upt_rec)
  from recommendations_positions_and_hero [OF ne di le co,
        of CarouselRecommendationEngine_init "92 / 100"]
  obtain res where res:
    "generate_recommendations CarouselRecommendationEngine_init (\<lambda>es. None)
          [test_image ''a'' 90 (800, 600), test_image ''b'' 70 (800, 600),
           test_image ''c'' 50 (800, 600)] [(), (), ()] (92 / 100) = Inr res
     \<and> map position (recommendations res)
         = map int [1 ..< length [test_image ''a'' 90 (800, 600),
             test_image ''b'' 70 (800, 600), test_image ''c'' 50 (800, 600)] + 1]
     \<and> filter is_hero (recommendations res) = [hd (recommendations res)]
     \<and> position (hd (recommendations res)) = 1
     \<and> hero_image res = Some (hd (recommendations res))" ..
  then have "generate_recommendations CarouselRecommendationEngine_init (\<lambda>es. None)
          [test_image ''a'' 90 (800, 600), test_image ''b'' 70 (800, 600),
           test_image ''c'' 50 (800, 600)] [(), (), ()] (92 / 100) = Inr res
        \<and> map position (recommendations res) = [1, 2, 3]
        \<and> filter is_hero (recommendations res) = [hd (recommendations res)]
        \<and> position (hd (recommendations res)) = 1"
    by (simp only: up simp_thms)
  then have ex: "\<exists>res. generate_recommendations CarouselRecommendationEngine_init (\<lambda>es. None)
          [test_image ''a'' 90 (800, 600), test_image ''b'' 70 (800, 600),
           test_image ''c'' 50 (800, 600)] [(), (), ()] (92 / 100) = Inr res
        \<and> map position (recommendations res) = [1, 2, 3]
        \<and> filter is_hero (recommendations res) = [hd (recommendations res)]
        \<and> position (hd (recommendations res)) = 1" ..
  show ?thesis by (rule conjI [OF ne conjI [OF di ex]])
qed

end
